theory Spec2Isabelle
  imports Main "HOL-Library.Word"
begin

section \<open>Errors, time values and statement parameters\<close>

text \<open>
  Go errors are values. \<open>ErrNoRows\<close> is \<open>sql.ErrNoRows\<close>, \<open>ErrOther\<close> is any other error
  of the driver or of a library, and \<open>Wrapped msg e\<close> is \<open>fmt.Errorf("msg: %w", e)\<close>.
  A Go result \<open>(v, err)\<close> is the pair \<open>(v, err)\<close> with \<open>None\<close> for a nil error.
\<close>

datatype error = ErrNoRows | ErrOther string | Wrapped string error

text \<open>\<open>errors.Is\<close>: the error itself or an error it wraps is the target.\<close>

fun errors_Is :: "error \<Rightarrow> error \<Rightarrow> bool" where
  "errors_Is (Wrapped msg e) target = (Wrapped msg e = target \<or> errors_Is e target)"
| "errors_Is e target = (e = target)"

text \<open>
  A \<open>time.Time\<close> is an instant (nanoseconds since the epoch) shown in a location (its
  offset from UTC in seconds). \<open>UTC\<close> changes the location only; \<open>UnixMilli\<close> is the
  instant in milliseconds, rounded down (the range of int64 is not modelled).
\<close>

record Time =
  unixNano :: int
  zoneOffset :: int

definition UTC :: "Time \<Rightarrow> Time" where
  "UTC t = t\<lparr>zoneOffset := 0\<rparr>"

definition UnixMilli :: "Time \<Rightarrow> int" where
  "UnixMilli t = unixNano t div 1000000"

text \<open>A value of type \<open>any\<close> handed to a statement, and a value held in a column.\<close>

datatype param = PNull | PInt int | PText string | PTime Time

text \<open>\<open>adjustParam\<close>: a time becomes its milliseconds since the epoch in UTC.\<close>

fun adjustParam :: "param \<Rightarrow> param" where
  "adjustParam (PTime t) = PInt (UnixMilli (UTC t))"
| "adjustParam p = p"

section \<open>The database\<close>

text \<open>
  Modelled from the spec: the statement texts and the table declarations
  (\<open>InsertMCDInfo\<close>, \<open>UpdateNodeInfoDeletionTimestamp\<close>, \<open>SelectLatestMCDInfo\<close>,
  \<open>CreateNodeInfoTable\<close> and the others) are constants that the source file uses and does
  not declare. A table is the list of its rows in insertion order; a row has the RowID the
  engine generated, the values bound at insertion in the order of the columns, and the
  DeletionTimestamp column, null at insertion. Each statement is atomic: it fails and
  leaves the table as it was, or it takes effect.
\<close>

datatype table = worker_pool_info | mcd_info | node_info | pod_info | ca_settings_info

record trow =
  RowID :: int
  cols :: "param list"
  DeletionTimestamp :: param

record DB =
  conn_open :: bool
  tables :: "table \<Rightarrow> trow list"

text \<open>
  How the driver answers during one call: each field is the error of one step, \<open>None\<close>
  when the step succeeds. The driver is the SQLite driver that \<open>Init\<close> opens: the result
  of a statement that took effect tells its row identifier and its number of rows with a
  nil error.
\<close>

record driver =
  exec_err :: "error option"
  query_err :: "error option"
  scan_err :: "error option"
  close_err :: "error option"

record Result =
  LastInsertId :: "int \<times> error option"
  RowsAffected :: "int \<times> error option"

definition next_RowID :: "trow list \<Rightarrow> int" where
  "next_RowID t = int (length t) + 1"

text \<open>
  \<open>Exec\<close> of an insert statement: the error, or the result together with the table one
  row longer.
\<close>

definition Exec_insert :: "driver \<Rightarrow> table \<Rightarrow> param list \<Rightarrow> DB \<Rightarrow> (error + Result) \<times> DB" where
  "Exec_insert drv tb args db =
     (case exec_err drv of
        Some e \<Rightarrow> (Inl e, db)
      | None \<Rightarrow>
          (let rid = next_RowID (tables db tb);
               res = \<lparr>LastInsertId = (rid, None), RowsAffected = (1, None)\<rparr>
           in (Inr res,
               db\<lparr>tables := (tables db)(tb := tables db tb @
                  [\<lparr>RowID = rid, cols = args, DeletionTimestamp = PNull\<rparr>])\<rparr>)))"

text \<open>
  The update of the deletion timestamp: \<open>UPDATE tb SET DeletionTimestamp = ? WHERE key = ?\<close>,
  the key being the column at position \<open>k\<close>. Every row with the key is marked.
\<close>

definition key_matches :: "nat \<Rightarrow> param \<Rightarrow> trow \<Rightarrow> bool" where
  "key_matches k v r = (k < length (cols r) \<and> cols r ! k = v)"

definition Exec_update_deletion :: "driver \<Rightarrow> table \<Rightarrow> nat \<Rightarrow> param list \<Rightarrow> DB \<Rightarrow> (error + Result) \<times> DB" where
  "Exec_update_deletion drv tb k args db =
     (case exec_err drv of
        Some e \<Rightarrow> (Inl e, db)
      | None \<Rightarrow>
          (case args of
             [ts, key] \<Rightarrow>
               (let n = int (length (filter (key_matches k key) (tables db tb)));
                    res = \<lparr>LastInsertId = (0, None),
                           RowsAffected = (n, None)\<rparr>
                in (Inr res,
                    db\<lparr>tables := (tables db)(tb :=
                       map (\<lambda>r. if key_matches k key r then r\<lparr>DeletionTimestamp := ts\<rparr> else r)
                           (tables db tb))\<rparr>))
           | _ \<Rightarrow> (Inl (ErrOther ''wrong number of arguments''), db)))"

section \<open>The facade and its lifecycle\<close>

datatype sqlDB = SqlDB string

record DataAccess =
  dataDBPath :: string
  dataDB :: "sqlDB option"

definition NewDataAccess :: "string \<Rightarrow> DataAccess" where
  "NewDataAccess path = \<lparr>dataDBPath = path, dataDB = None\<rparr>"

text \<open>\<open>sql.DB.Close\<close>: the connection is released unless the driver reports an error.\<close>

definition sql_DB_Close :: "driver \<Rightarrow> DB \<Rightarrow> error option \<times> DB" where
  "sql_DB_Close drv db =
     (case close_err drv of
        Some e \<Rightarrow> (Some e, db)
      | None \<Rightarrow> (None, db\<lparr>conn_open := False\<rparr>))"

definition Close :: "driver \<Rightarrow> DataAccess \<Rightarrow> DB \<Rightarrow> error option \<times> DataAccess \<times> DB" where
  "Close drv d db =
     (if dataDB d = None then (None, d, db)
      else (case sql_DB_Close drv db of
              (Some e, db') \<Rightarrow> (Some e, d, db')
            | (None, db') \<Rightarrow> (None, d\<lparr>dataDB := None\<rparr>, db')))"

section \<open>Counting the rows with a key and a hash\<close>










section \<open>The codec layer\<close>

text \<open>
  A Go map is nil (\<open>None\<close>) or a finite map; a slice is nil or a list. The tests
  \<open>len(m) == 0\<close> and \<open>len(s) == 0\<close> hold of nil and of the empty value alike.
\<close>

type_synonym 'v gomap = "(string \<rightharpoonup> 'v) option"
type_synonym 'a slice = "'a list option"

definition len_map_0 :: "'v gomap \<Rightarrow> bool" where
  "len_map_0 m = (case m of None \<Rightarrow> True | Some f \<Rightarrow> dom f = {})"

definition len_slice_0 :: "'a slice \<Rightarrow> bool" where
  "len_slice_0 s = (case s of None \<Rightarrow> True | Some xs \<Rightarrow> xs = [])"

text \<open>
  \<open>strings.TrimSpace\<close> removes the white space of Unicode from both ends of a text. A text
  is a list of bytes in UTF-8, and \<open>white_space\<close> lists the encodings of the characters
  that \<open>unicode.IsSpace\<close> accepts: tab, line feed, vertical tab, form feed, carriage return,
  space, U+0085, U+00A0, U+1680, U+2000 to U+200A, U+2028, U+2029, U+202F, U+205F and
  U+3000. \<open>trim_runes\<close> removes the encodings in its list from the front of a text, one
  after the other, until the text starts with none of them.
\<close>

definition white_space :: "string list" where
  "white_space =
     [[CHR 0x09], [CHR 0x0A], [CHR 0x0B], [CHR 0x0C], [CHR 0x0D], [CHR 0x20],
      [CHR 0xC2, CHR 0x85], [CHR 0xC2, CHR 0xA0],
      [CHR 0xE1, CHR 0x9A, CHR 0x80],
      [CHR 0xE2, CHR 0x80, CHR 0x80], [CHR 0xE2, CHR 0x80, CHR 0x81],
      [CHR 0xE2, CHR 0x80, CHR 0x82], [CHR 0xE2, CHR 0x80, CHR 0x83],
      [CHR 0xE2, CHR 0x80, CHR 0x84], [CHR 0xE2, CHR 0x80, CHR 0x85],
      [CHR 0xE2, CHR 0x80, CHR 0x86], [CHR 0xE2, CHR 0x80, CHR 0x87],
      [CHR 0xE2, CHR 0x80, CHR 0x88], [CHR 0xE2, CHR 0x80, CHR 0x89],
      [CHR 0xE2, CHR 0x80, CHR 0x8A],
      [CHR 0xE2, CHR 0x80, CHR 0xA8], [CHR 0xE2, CHR 0x80, CHR 0xA9],
      [CHR 0xE2, CHR 0x80, CHR 0xAF], [CHR 0xE2, CHR 0x81, CHR 0x9F],
      [CHR 0xE3, CHR 0x80, CHR 0x80]]"

definition starts_with :: "string \<Rightarrow> string \<Rightarrow> bool" where
  "starts_with s r = (r \<noteq> [] \<and> take (length r) s = r)"

function trim_runes :: "string list \<Rightarrow> string \<Rightarrow> string" where
  "trim_runes runes s =
     (case List.find (starts_with s) runes of
        None \<Rightarrow> s
      | Some r \<Rightarrow> trim_runes runes (drop (length r) s))"
  by pat_completeness auto
termination
proof (relation "measure (\<lambda>(runes, s). length s)")
  show "wf (measure (\<lambda>(runes, s). length s))" by simp
next
  fix runes :: "string list" and s r :: string
  assume "List.find (starts_with s) runes = Some r"
  then have "starts_with s r" by (auto simp: find_Some_iff)
  then have n: "r \<noteq> []" and t: "take (length r) s = r" by (simp_all add: starts_with_def)
  from t have "length (take (length r) s) = length r" by simp
  then have "length r \<le> length s" by simp
  moreover from n have "0 < length r" by simp
  ultimately show "((runes, drop (length r) s), (runes, s)) \<in> measure (\<lambda>(runes, s). length s)"
    by (cases r) auto
qed

declare trim_runes.simps [simp del]

definition TrimSpace :: "string \<Rightarrow> string" where
  "TrimSpace s = rev (trim_runes (map rev white_space) (rev (trim_runes white_space s)))"

text \<open>
  \<open>json.Marshal\<close> and \<open>json.Unmarshal\<close> belong to a library: each function of the codec
  layer takes the one it calls as its first argument, \<open>Marshal v\<close> being the text and the
  error, \<open>Unmarshal text\<close> the value left in a zero target and the error.
\<close>

definition labelsToText :: "(string gomap \<Rightarrow> string \<times> error option) \<Rightarrow> string gomap \<Rightarrow> string \<times> error option" where
  "labelsToText Marshal valMap =
     (if len_map_0 valMap then ('''', None)
      else (case Marshal valMap of
              (bytes, Some e) \<Rightarrow> ('''', Some (Wrapped ''cannot serialize labels'' e))
            | (bytes, None) \<Rightarrow> (bytes, None)))"

definition resourcesToText :: "('q gomap \<Rightarrow> string \<times> error option) \<Rightarrow> 'q gomap \<Rightarrow> string \<times> error option" where
  "resourcesToText Marshal resources =
     (if len_map_0 resources then ('''', None)
      else (case Marshal resources of
              (bytes, Some e) \<Rightarrow> ('''', Some (Wrapped ''cannot serialize resources'' e))
            | (bytes, None) \<Rightarrow> (bytes, None)))"

definition tolerationsToText :: "('tol slice \<Rightarrow> string \<times> error option) \<Rightarrow> 'tol slice \<Rightarrow> string \<times> error option" where
  "tolerationsToText Marshal tolerations =
     (if len_slice_0 tolerations then ('''', None)
      else (case Marshal tolerations of
              (bytes, Some e) \<Rightarrow> ('''', Some (Wrapped ''cannot serialize tolerations'' e))
            | (bytes, None) \<Rightarrow> (bytes, None)))"

definition tscToText :: "('tsc slice \<Rightarrow> string \<times> error option) \<Rightarrow> 'tsc slice \<Rightarrow> string \<times> error option" where
  "tscToText Marshal tsc =
     (if len_slice_0 tsc then ('''', None)
      else (case Marshal tsc of
              (bytes, Some e) \<Rightarrow> ('''', Some (Wrapped ''cannot serialize TopologySpreadConstraints'' e))
            | (bytes, None) \<Rightarrow> (bytes, None)))"

definition taintsToText :: "('taint slice \<Rightarrow> string \<times> error option) \<Rightarrow> 'taint slice \<Rightarrow> string \<times> error option" where
  "taintsToText Marshal taints =
     (if len_slice_0 taints then ('''', None)
      else (case Marshal taints of
              (bytes, Some e) \<Rightarrow> ('''', Some (Wrapped ''cannot serialize taints'' e))
            | (bytes, None) \<Rightarrow> (bytes, None)))"

definition labelsFromText :: "(string \<Rightarrow> string gomap \<times> error option) \<Rightarrow> string \<Rightarrow> string gomap \<times> error option" where
  "labelsFromText Unmarshal textValue =
     (if TrimSpace textValue = '''' then (None, None)
      else (case Unmarshal textValue of
              (labels, Some e) \<Rightarrow> (labels, Some (Wrapped ''cannot de-serialize labels'' e))
            | (labels, None) \<Rightarrow> (labels, None)))"

definition tolerationsFromText :: "(string \<Rightarrow> 'tol slice \<times> error option) \<Rightarrow> string \<Rightarrow> 'tol slice \<times> error option" where
  "tolerationsFromText Unmarshal textValue =
     (if TrimSpace textValue = '''' then (None, None)
      else (case Unmarshal textValue of
              (tolerations, Some e) \<Rightarrow> (tolerations, Some (Wrapped ''cannot de-serialize tolerations'' e))
            | (tolerations, None) \<Rightarrow> (tolerations, None)))"

definition tscFromText :: "(string \<Rightarrow> 'tsc slice \<times> error option) \<Rightarrow> string \<Rightarrow> 'tsc slice \<times> error option" where
  "tscFromText Unmarshal textValue =
     (if TrimSpace textValue = '''' then (None, None)
      else (case Unmarshal textValue of
              (tsc, Some e) \<Rightarrow> (tsc, Some (Wrapped ''cannot de-serialize TopologySpreadConstraints'' e))
            | (tsc, None) \<Rightarrow> (tsc, None)))"

text \<open>The spec document has no test for emptiness when it is written.\<close>

definition specToJson :: "('spec \<Rightarrow> string \<times> error option) \<Rightarrow> 'spec \<Rightarrow> string \<times> error option" where
  "specToJson Marshal podSpec =
     (case Marshal podSpec of
        (bytes, Some e) \<Rightarrow> ('''', Some (Wrapped ''cannot serialize podSpec'' e))
      | (bytes, None) \<Rightarrow> (bytes, None))"

definition speccFromJson :: "'spec \<Rightarrow> (string \<Rightarrow> 'spec \<times> error option) \<Rightarrow> string \<Rightarrow> 'spec \<times> error option" where
  "speccFromJson zero Unmarshal jsonVal =
     (if TrimSpace jsonVal = '''' then (zero, None)
      else (case Unmarshal jsonVal of
              (podSpec, Some e) \<Rightarrow> (podSpec, Some (Wrapped ''cannot de-serialize podSpec'' e))
            | (podSpec, None) \<Rightarrow> (podSpec, None)))"

definition taintsFromText :: "(string \<Rightarrow> 'taint slice \<times> error option) \<Rightarrow> string \<Rightarrow> 'taint slice \<times> error option" where
  "taintsFromText Unmarshal textValue =
     (if TrimSpace textValue = '''' then (None, None)
      else (case Unmarshal textValue of
              (taints, Some e) \<Rightarrow> (taints, Some (Wrapped ''cannot de-serialize taints'' e))
            | (taints, None) \<Rightarrow> (taints, None)))"

definition resourcesFromText :: "(string \<Rightarrow> 'q gomap \<times> error option) \<Rightarrow> string \<Rightarrow> 'q gomap \<times> error option" where
  "resourcesFromText Unmarshal textValue =
     (if TrimSpace textValue = '''' then (None, None)
      else (case Unmarshal textValue of
              (resources, Some e) \<Rightarrow> (resources, Some (Wrapped ''cannot de-serialize resources'' e))
            | (resources, None) \<Rightarrow> (resources, None)))"

section \<open>The domain objects\<close>

text \<open>
  The domain types are declared outside the source file; their fields are the ones the
  store reads. The fields that several kinds have in common are declared once, in the
  records \<open>HashedInfo\<close>, \<open>Info\<close>, \<open>SizedInfo\<close> and \<open>LabelledInfo\<close>, and each kind
  extends one of them. The types of the cluster API (\<open>IntOrString\<close>, \<open>Quantity\<close>,
  \<open>Taint\<close>, \<open>PodSpec\<close>) are type parameters.

  A label map is a reference into a heap of label maps, as \<open>StoreNodeInfo\<close> deletes a key
  from the map of its caller; \<open>None\<close> is the nil map. The other maps and slices are only
  read and are held as values.
\<close>

type_synonym heap = "nat \<Rightarrow> (string \<rightharpoonup> string)"

record HashedInfo =
  Hash :: string

record Info = HashedInfo +
  CreationTimestamp :: Time
  SnapshotTimestamp :: Time
  Name :: string
  Namespace :: string

record 'ios SizedInfo = Info +
  MaxSurge :: 'ios
  MaxUnavailable :: 'ios

record 'ios MachineDeploymentInfo = "'ios SizedInfo" +
  Replicas :: int
  PoolName :: string
  Zone :: string
  MachineClassName :: string

record 'ios WorkerPoolInfo = "'ios SizedInfo" +
  MachineType :: string
  Architecture :: string
  Minimum :: int
  Maximum :: int
  Zones :: "string list"

record LabelledInfo = Info +
  Labels :: "nat option"

record ('q, 'spec) PodInfo = LabelledInfo +
  UID :: string
  NodeName :: string
  NominatedNodeName :: string
  Requests :: "'q gomap"
  Spec :: 'spec
  PodScheduleStatus :: int

record ('q, 'taint) NodeInfo = LabelledInfo +
  ProviderID :: string
  AllocatableVolumes :: int
  Taints :: "'taint slice"
  Allocatable :: "'q gomap"
  Capacity :: "'q gomap"

record CASettingsInfo = HashedInfo +
  Expander :: string
  MaxNodesTotal :: int
  Priorities :: string

definition labels_of :: "heap \<Rightarrow> nat option \<Rightarrow> string gomap" where
  "labels_of h ref = map_option h ref"

text \<open>The key of the label that \<open>StoreNodeInfo\<close> removes.\<close>

definition last_applied_label :: string where
  "last_applied_label = ''node.machine.sapcloud.io/last-applied-anno-labels-taints''"

text \<open>The built-in \<open>delete(m, k)\<close>: nothing happens on a nil map.\<close>

definition delete :: "heap \<Rightarrow> nat option \<Rightarrow> string \<Rightarrow> heap" where
  "delete h ref k = (case ref of None \<Rightarrow> h | Some a \<Rightarrow> h(a := (h a)(k := None)))"

text \<open>\<open>strings.Join\<close>.\<close>

fun Join :: "string list \<Rightarrow> string \<Rightarrow> string" where
  "Join [] sep = ''''"
| "Join [x] sep = x"
| "Join (x # y # ys) sep = x @ sep @ Join (y # ys) sep"

section \<open>Storing snapshots\<close>

text \<open>
  \<open>GetHash\<close> and the \<open>String\<close> method of \<open>IntOrString\<close> are declared outside the source
  file and are arguments. Each function returns what the Go function returns, and the
  database after the call.
\<close>

definition StoreMachineDeploymentInfo ::
    "('ios MachineDeploymentInfo \<Rightarrow> string) \<Rightarrow> ('ios \<Rightarrow> string) \<Rightarrow> driver \<Rightarrow>
     'ios MachineDeploymentInfo \<Rightarrow> DB \<Rightarrow> (int \<times> error option) \<times> DB" where
  "StoreMachineDeploymentInfo GetHash String drv m0 db =
     (let m = (if Hash m0 = '''' then m0\<lparr>Hash := GetHash m0\<rparr> else m0)
      in case Exec_insert drv mcd_info
                [PInt (UnixMilli (UTC (CreationTimestamp m))),
                 PInt (UnixMilli (UTC (SnapshotTimestamp m))),
                 PText (Name m),
                 PText (Namespace m),
                 PInt (Replicas m),
                 PText (PoolName m),
                 PText (Zone m),
                 PText (String (MaxSurge m)),
                 PText (String (MaxUnavailable m)),
                 PText (MachineClassName m),
                 PText (Hash m)] db of
           (Inl e, db') \<Rightarrow> ((0, Some e), db')
         | (Inr result, db') \<Rightarrow> (LastInsertId result, db'))"

definition StoreWorkerPoolInfo ::
    "('ios WorkerPoolInfo \<Rightarrow> string) \<Rightarrow> ('ios \<Rightarrow> string) \<Rightarrow> driver \<Rightarrow>
     'ios WorkerPoolInfo \<Rightarrow> DB \<Rightarrow> (int \<times> error option) \<times> DB" where
  "StoreWorkerPoolInfo GetHash String drv w0 db =
     (let w = (if Hash w0 = '''' then w0\<lparr>Hash := GetHash w0\<rparr> else w0)
      in case Exec_insert drv worker_pool_info
                [PInt (UnixMilli (UTC (CreationTimestamp w))),
                 PInt (UnixMilli (UTC (SnapshotTimestamp w))),
                 PText (Name w),
                 PText (Namespace w),
                 PText (MachineType w),
                 PText (Architecture w),
                 PInt (Minimum w),
                 PInt (Maximum w),
                 PText (String (MaxSurge w)),
                 PText (String (MaxUnavailable w)),
                 PText (Join (Zones w) '' ''),
                 PText (Hash w)] db of
           (Inl e, db') \<Rightarrow> ((0, Some e), db')
         | (Inr result, db') \<Rightarrow> (LastInsertId result, db'))"

definition StorePodInfo ::
    "(heap \<Rightarrow> ('q, 'spec) PodInfo \<Rightarrow> string) \<Rightarrow>
     (string gomap \<Rightarrow> string \<times> error option) \<Rightarrow>
     ('q gomap \<Rightarrow> string \<times> error option) \<Rightarrow>
     ('spec \<Rightarrow> string \<times> error option) \<Rightarrow> driver \<Rightarrow>
     ('q, 'spec) PodInfo \<Rightarrow> heap \<Rightarrow> DB \<Rightarrow> (int \<times> error option) \<times> DB" where
  "StorePodInfo GetHash MarshalLabels MarshalResources MarshalSpec drv podInfo0 h db =
     (let podInfo = (if Hash podInfo0 = '''' then podInfo0\<lparr>Hash := GetHash h podInfo0\<rparr>
                     else podInfo0)
      in case labelsToText MarshalLabels (labels_of h (Labels podInfo)) of
           (labels, Some e) \<Rightarrow> ((- 1, Some e), db)
         | (labels, None) \<Rightarrow>
      (case resourcesToText MarshalResources (Requests podInfo) of
           (requests, Some e) \<Rightarrow> ((- 1, Some e), db)
         | (requests, None) \<Rightarrow>
      (case specToJson MarshalSpec (Spec podInfo) of
           (podSpec, Some e) \<Rightarrow> ((- 1, Some e), db)
         | (podSpec, None) \<Rightarrow>
      (case Exec_insert drv pod_info
                [PInt (UnixMilli (UTC (CreationTimestamp podInfo))),
                 PInt (UnixMilli (UTC (SnapshotTimestamp podInfo))),
                 PText (Name podInfo),
                 PText (Namespace podInfo),
                 PText (UID podInfo),
                 PText (NodeName podInfo),
                 PText (NominatedNodeName podInfo),
                 PText labels,
                 PText requests,
                 PText podSpec,
                 PInt (PodScheduleStatus podInfo),
                 PText (Hash podInfo)] db of
           (Inl e, db') \<Rightarrow> ((- 1, Some (Wrapped ''could not persist podinfo'' e)), db')
         | (Inr result, db') \<Rightarrow> (LastInsertId result, db')))))"

text \<open>
  \<open>StoreNodeInfo\<close> also returns the heap of label maps after the call. Its result
  \<open>rowID\<close> is a named result that no statement assigns.
\<close>

definition StoreNodeInfo ::
    "(heap \<Rightarrow> ('q, 'taint) NodeInfo \<Rightarrow> string) \<Rightarrow>
     (string gomap \<Rightarrow> string \<times> error option) \<Rightarrow>
     ('taint slice \<Rightarrow> string \<times> error option) \<Rightarrow>
     ('q gomap \<Rightarrow> string \<times> error option) \<Rightarrow> driver \<Rightarrow>
     ('q, 'taint) NodeInfo \<Rightarrow> heap \<Rightarrow> DB \<Rightarrow> (int \<times> error option) \<times> heap \<times> DB" where
  "StoreNodeInfo GetHash MarshalLabels MarshalTaints MarshalResources drv n0 h db =
     (let rowID = 0;
          n = (if Hash n0 = '''' then n0\<lparr>Hash := GetHash h n0\<rparr> else n0);
          h' = delete h (Labels n) last_applied_label
      in case labelsToText MarshalLabels (labels_of h' (Labels n)) of
           (labelsText, Some e) \<Rightarrow> ((rowID, Some e), h', db)
         | (labelsText, None) \<Rightarrow>
      (case taintsToText MarshalTaints (Taints n) of
           (taintsText, Some e) \<Rightarrow> ((rowID, Some e), h', db)
         | (taintsText, None) \<Rightarrow>
      (case resourcesToText MarshalResources (Allocatable n) of
           (allocatableText, Some e) \<Rightarrow> ((rowID, Some e), h', db)
         | (allocatableText, None) \<Rightarrow>
      (case resourcesToText MarshalResources (Capacity n) of
           (capacityText, Some e) \<Rightarrow> ((rowID, Some e), h', db)
         | (capacityText, None) \<Rightarrow>
      (case Exec_insert drv node_info
                [PInt (UnixMilli (UTC (CreationTimestamp n))),
                 PInt (UnixMilli (UTC (SnapshotTimestamp n))),
                 PText (Name n),
                 PText (Namespace n),
                 PText (ProviderID n),
                 PInt (AllocatableVolumes n),
                 PText labelsText,
                 PText taintsText,
                 PText allocatableText,
                 PText capacityText,
                 PText (Hash n)] db of
           (Inl e, db') \<Rightarrow> ((rowID, Some e), h', db')
         | (Inr result, db') \<Rightarrow> ((rowID, None), h', db'))))))"

definition StoreCADeployment :: "driver \<Rightarrow> CASettingsInfo \<Rightarrow> DB \<Rightarrow> (int \<times> error option) \<times> DB" where
  "StoreCADeployment drv caSettings db =
     (case Exec_insert drv ca_settings_info
             [PText (Expander caSettings),
              PInt (MaxNodesTotal caSettings),
              PText (Priorities caSettings),
              PText (Hash caSettings)] db of
        (Inl e, db') \<Rightarrow> ((- 1, Some e), db')
      | (Inr result, db') \<Rightarrow> (LastInsertId result, db'))"

section \<open>Marking snapshots as deleted\<close>

text \<open>
  The key of a pod is its UID, the fifth value bound at insertion; the key of a node and of
  a machine deployment is its name, the third.
\<close>

definition UpdatePodDeletionTimestamp :: "driver \<Rightarrow> string \<Rightarrow> Time \<Rightarrow> DB \<Rightarrow> (int \<times> error option) \<times> DB" where
  "UpdatePodDeletionTimestamp drv podUID deletionTimestamp db =
     (case Exec_update_deletion drv pod_info 4
             [PInt (UnixMilli (UTC deletionTimestamp)), PText podUID] db of
        (Inl e, db') \<Rightarrow> ((- 1, Some e), db')
      | (Inr result, db') \<Rightarrow>
          (case RowsAffected result of
             (updated, Some e) \<Rightarrow> ((- 1, Some e), db')
           | (updated, None) \<Rightarrow> ((updated, None), db')))"

definition UpdateNodeInfoDeletionTimestamp :: "driver \<Rightarrow> string \<Rightarrow> Time \<Rightarrow> DB \<Rightarrow> (int \<times> error option) \<times> DB" where
  "UpdateNodeInfoDeletionTimestamp drv name deletionTimestamp db =
     (case Exec_update_deletion drv node_info 2
             [PTime deletionTimestamp, PText name] db of
        (Inl e, db') \<Rightarrow> ((- 1, Some e), db')
      | (Inr result, db') \<Rightarrow>
          (case RowsAffected result of
             (updated, Some e) \<Rightarrow> ((- 1, Some e), db')
           | (updated, None) \<Rightarrow> ((updated, None), db')))"

definition UpdateMCDInfoDeletionTimestamp :: "driver \<Rightarrow> string \<Rightarrow> Time \<Rightarrow> DB \<Rightarrow> (int \<times> error option) \<times> DB" where
  "UpdateMCDInfoDeletionTimestamp drv name deletionTimestamp db =
     (case Exec_update_deletion drv mcd_info 2
             [PTime deletionTimestamp, PText name] db of
        (Inl e, db') \<Rightarrow> ((- 1, Some e), db')
      | (Inr result, db') \<Rightarrow>
          (case RowsAffected result of
             (updated, Some e) \<Rightarrow> ((- 1, Some e), db')
           | (updated, None) \<Rightarrow> ((updated, None), db')))"

section \<open>The query primitives\<close>

text \<open>
  A prepared select statement is the function from the bound parameters to what \<open>Query\<close>
  returns: an error, or the rows. The rows carry the error that scanning them into row
  objects meets, if any, and the row objects. \<open>scan.Rows\<close> and \<open>scan.Row\<close> belong to a
  library; \<open>scan.Row\<close> reports \<open>sql.ErrNoRows\<close> when there is no row.
\<close>

datatype 'r Rows = Rows "error option" "'r list"

type_synonym 'r Stmt = "param list \<Rightarrow> error + 'r Rows"

fun scan_Rows :: "'r Rows \<Rightarrow> error + 'r list" where
  "scan_Rows (Rows (Some e) rs) = Inl e"
| "scan_Rows (Rows None rs) = Inr rs"

fun scan_Row :: "'r Rows \<Rightarrow> error + 'r" where
  "scan_Row (Rows (Some e) rs) = Inl e"
| "scan_Row (Rows None []) = Inl ErrNoRows"
| "scan_Row (Rows None (r # rs)) = Inr r"

text \<open>The loop over the row objects; \<open>AsInfo\<close> is the method of the row type.\<close>

fun mapAsInfo :: "('r \<Rightarrow> 'i \<times> error option) \<Rightarrow> 'r list \<Rightarrow> 'i list \<Rightarrow> 'i slice \<times> error option" where
  "mapAsInfo AsInfo [] infoObjs = (Some infoObjs, None)"
| "mapAsInfo AsInfo (r # rs) infoObjs =
     (case AsInfo r of
        (infoObj, Some e) \<Rightarrow> (None, Some e)
      | (infoObj, None) \<Rightarrow> mapAsInfo AsInfo rs (infoObjs @ [infoObj]))"

definition queryAndMapToInfos :: "('r \<Rightarrow> 'i \<times> error option) \<Rightarrow> 'r Stmt \<Rightarrow> param list \<Rightarrow> 'i slice \<times> error option" where
  "queryAndMapToInfos AsInfo stmt params =
     (let adjustedParams = map adjustParam params
      in case stmt adjustedParams of
           Inl e \<Rightarrow> (None, Some e)
         | Inr rows \<Rightarrow>
             (case scan_Rows rows of
                Inl e \<Rightarrow> (None, Some e)
              | Inr rowObjs \<Rightarrow>
                  if length rowObjs = 0 then (None, Some ErrNoRows)
                  else mapAsInfo AsInfo rowObjs []))"

text \<open>\<open>zero\<close> is the zero value of the domain type, returned beside an error.\<close>

definition queryAndMapToInfo :: "'i \<Rightarrow> ('r \<Rightarrow> 'i \<times> error option) \<Rightarrow> 'r Stmt \<Rightarrow> param list \<Rightarrow> 'i \<times> error option" where
  "queryAndMapToInfo zero AsInfo stmt param =
     (case stmt param of
        Inl e \<Rightarrow> (zero, Some e)
      | Inr rows \<Rightarrow>
          (case scan_Row rows of
             Inl e \<Rightarrow> (zero, Some (Wrapped ''could not find rows for statement'' e))
           | Inr rowObj \<Rightarrow>
               (case AsInfo rowObj of
                  (infoObj, Some e) \<Rightarrow> (infoObj, Some e)
                | (infoObj, None) \<Rightarrow> (infoObj, None))))"

section \<open>Loading snapshots\<close>

definition LoadMachineDeploymentInfosBefore :: "('r \<Rightarrow> 'i \<times> error option) \<Rightarrow> 'r Stmt \<Rightarrow> Time \<Rightarrow> 'i slice \<times> error option" where
  "LoadMachineDeploymentInfosBefore AsInfo selectMCDInfoBefore snapshotTimestamp =
     (case queryAndMapToInfos AsInfo selectMCDInfoBefore [PTime snapshotTimestamp] of
        (mcdInfos, Some e) \<Rightarrow>
          (None, Some (Wrapped ''LoadMachineDeploymentInfosBefore could not scan rows'' e))
      | (mcdInfos, None) \<Rightarrow> (mcdInfos, None))"

definition LoadNodeInfosBefore :: "('r \<Rightarrow> 'i \<times> error option) \<Rightarrow> 'r Stmt \<Rightarrow> Time \<Rightarrow> 'i slice \<times> error option" where
  "LoadNodeInfosBefore AsInfo selectNodeInfosBefore creationTimestamp =
     (case queryAndMapToInfos AsInfo selectNodeInfosBefore [PTime creationTimestamp] of
        (nodeInfos, Some e) \<Rightarrow>
          (None, Some (Wrapped ''LoadNodeInfosBefore could not scan rows'' e))
      | (nodeInfos, None) \<Rightarrow> (nodeInfos, None))"

definition LoadLatestMachineDeploymentInfo :: "'i \<Rightarrow> ('r \<Rightarrow> 'i \<times> error option) \<Rightarrow> 'r Stmt \<Rightarrow> string \<Rightarrow> 'i \<times> error option" where
  "LoadLatestMachineDeploymentInfo zero AsInfo selectLatestMCDInfo name =
     queryAndMapToInfo zero AsInfo selectLatestMCDInfo [PText name]"

definition LoadLatestPodInfoWithName :: "'i \<Rightarrow> ('r \<Rightarrow> 'i \<times> error option) \<Rightarrow> 'r Stmt \<Rightarrow> string \<Rightarrow> 'i \<times> error option" where
  "LoadLatestPodInfoWithName zero AsInfo selectLatestPodInfoWithName podName =
     queryAndMapToInfo zero AsInfo selectLatestPodInfoWithName [PText podName]"

text \<open>
  Modelled from the spec: the text of the statement \<open>SelectLatestMCDInfo\<close> is a constant
  that the source file does not declare. The statement yields the most recently inserted
  row of \<open>mcd_info\<close> whose name, the third value bound at insertion, is the parameter.
\<close>

definition selectLatestMCDInfo :: "driver \<Rightarrow> DB \<Rightarrow> trow Stmt" where
  "selectLatestMCDInfo drv db params =
     (case query_err drv of
        Some e \<Rightarrow> Inl e
      | None \<Rightarrow>
          (case params of
             [key] \<Rightarrow> Inr (Rows (scan_err drv)
                            (take 1 (rev (filter (key_matches 2 key) (tables db mcd_info)))))
           | _ \<Rightarrow> Inl (ErrOther ''wrong number of arguments'')))"

section \<open>The autoscaler settings\<close>

text \<open>A pointer to a settings object is \<open>Some\<close> of it; \<open>None\<close> is the nil pointer.\<close>

definition GetLatestCADeployment :: "CASettingsInfo Stmt \<Rightarrow> CASettingsInfo option \<times> error option" where
  "GetLatestCADeployment selectLatestCADeployment =
     (case selectLatestCADeployment [] of
        Inl e \<Rightarrow> (None, Some e)
      | Inr rows \<Rightarrow>
          (case scan_Rows rows of
             Inl e \<Rightarrow> (None, Some e)
           | Inr caDeployments \<Rightarrow>
               (case caDeployments of
                  [] \<Rightarrow> (None, None)
                | c # cs \<Rightarrow> (Some c, None))))"

text \<open>The lookup by hash runs the statement \<open>selectLatestCADeployment\<close> too, with the hash bound.\<close>

definition GetCADeploymentWithHash :: "CASettingsInfo Stmt \<Rightarrow> string \<Rightarrow> CASettingsInfo option \<times> error option" where
  "GetCADeploymentWithHash selectLatestCADeployment Hash' =
     (case selectLatestCADeployment [PText Hash'] of
        Inl e \<Rightarrow> (None, Some e)
      | Inr rows \<Rightarrow>
          (case scan_Rows rows of
             Inl e \<Rightarrow> (None, Some e)
           | Inr caDeployments \<Rightarrow>
               (case caDeployments of
                  [] \<Rightarrow> (None, None)
                | c # cs \<Rightarrow> (Some c, None))))"

text \<open>
  Modelled from the spec: the text of the statement \<open>SelectLatestCADeployment\<close> is a
  constant that the source file does not declare. The statement has no parameter and
  yields the most recently inserted row of \<open>ca_settings_info\<close>; the SQLite driver does not
  count the arguments of a query and leaves a surplus argument unbound. \<open>ca_of_row\<close> is the
  settings object that \<open>scan.Rows\<close> reads from a row.
\<close>

definition text_of :: "param \<Rightarrow> string" where
  "text_of p = (case p of PText s \<Rightarrow> s | _ \<Rightarrow> '''')"

definition int_of :: "param \<Rightarrow> int" where
  "int_of p = (case p of PInt i \<Rightarrow> i | _ \<Rightarrow> 0)"

definition ca_of_row :: "trow \<Rightarrow> CASettingsInfo" where
  "ca_of_row r =
     (if length (cols r) = 4
      then \<lparr>Hash = text_of (cols r ! 3), Expander = text_of (cols r ! 0),
            MaxNodesTotal = int_of (cols r ! 1), Priorities = text_of (cols r ! 2)\<rparr>
      else \<lparr>Hash = '''', Expander = '''', MaxNodesTotal = 0, Priorities = ''''\<rparr>)"

definition selectLatestCADeployment :: "driver \<Rightarrow> DB \<Rightarrow> CASettingsInfo Stmt" where
  "selectLatestCADeployment drv db params =
     (case query_err drv of
        Some e \<Rightarrow> Inl e
      | None \<Rightarrow> Inr (Rows (scan_err drv)
                       (map ca_of_row (take 1 (rev (tables db ca_settings_info))))))"

section \<open>Sample inputs\<close>

text \<open>
  Concrete drivers, databases, domain objects and library functions, on which the
  theorems below are run.
\<close>

definition ok_driver :: driver where
  "ok_driver = \<lparr>exec_err = None, query_err = None, scan_err = None, close_err = None\<rparr>"

definition locked_driver :: driver where
  "locked_driver = ok_driver\<lparr>exec_err := Some (ErrOther ''database is locked'')\<rparr>"


definition db_empty :: DB where
  "db_empty = \<lparr>conn_open = True, tables = (\<lambda>tb. [])\<rparr>"

definition T0 :: Time where
  "T0 = \<lparr>unixNano = 1700000000123456789, zoneOffset = 3600\<rparr>"

definition T2 :: Time where
  "T2 = \<lparr>unixNano = 1700000002000000000, zoneOffset = 3600\<rparr>"

definition sample_Marshal :: "'a \<Rightarrow> string \<times> error option" where
  "sample_Marshal v = (''{a:b}'', None)"




text \<open>A hash of a labelled object that reads its name and two of its labels.\<close>

definition labels_GetHash :: "heap \<Rightarrow> 'z LabelledInfo_scheme \<Rightarrow> string" where
  "labels_GetHash h n =
     Name n @ (case labels_of h (Labels n) of
                 None \<Rightarrow> ''''
               | Some m \<Rightarrow>
                   (case m ''a'' of None \<Rightarrow> '''' | Some v \<Rightarrow> v) @
                   (case m last_applied_label of None \<Rightarrow> '''' | Some v \<Rightarrow> v))"

definition heap1 :: heap where
  "heap1 = (\<lambda>a. Map.empty)(0 := [''a'' \<mapsto> ''b'', last_applied_label \<mapsto> ''x''])"

definition node1 :: "(string, string) NodeInfo" where
  "node1 = \<lparr>Hash = '''', CreationTimestamp = T0, SnapshotTimestamp = T0, Name = ''n1'',
            Namespace = ''default'', Labels = Some 0, ProviderID = ''p1'',
            AllocatableVolumes = 3, Taints = None, Allocatable = None, Capacity = None\<rparr>"

definition node1_row :: trow where
  "node1_row =
     \<lparr>RowID = 1,
      cols = [PInt 1700000000123, PInt 1700000000123, PText ''n1'', PText ''default'',
              PText ''p1'', PInt 3, PText ''{a:b}'', PText '''', PText '''', PText '''',
              PText ''n1bx''],
      DeletionTimestamp = PNull\<rparr>"

definition db_node1 :: DB where
  "db_node1 = db_empty\<lparr>tables := (tables db_empty)(node_info := [node1_row])\<rparr>"


definition pod1_row :: trow where
  "pod1_row =
     \<lparr>RowID = 1,
      cols = [PInt 1700000000123, PInt 1700000002000, PText ''p1'', PText ''default'',
              PText ''uid-1'', PText ''n1'', PText '''', PText '''', PText '''',
              PText ''{a:b}'', PInt 1, PText ''77aa''],
      DeletionTimestamp = PNull\<rparr>"



definition ca1 :: CASettingsInfo where
  "ca1 = \<lparr>Hash = ''c0de'', Expander = ''least-waste'', MaxNodesTotal = 10, Priorities = ''''\<rparr>"

definition ca1_row :: trow where
  "ca1_row =
     \<lparr>RowID = 1,
      cols = [PText ''least-waste'', PInt 10, PText '''', PText ''c0de''],
      DeletionTimestamp = PNull\<rparr>"

definition db_ca1 :: DB where
  "db_ca1 = db_empty\<lparr>tables := (tables db_empty)(ca_settings_info := [ca1_row])\<rparr>"

definition opened :: DataAccess where
  "opened = \<lparr>dataDBPath = ''data.db'', dataDB = Some (SqlDB ''data.db'')\<rparr>"


text \<open>A select statement that yields no row, and a row type that is its own domain object.\<close>

definition no_rows_stmt :: "'r Stmt" where
  "no_rows_stmt params = Inr (Rows None [])"

definition AsInfo_id :: "'r \<Rightarrow> 'r \<times> error option" where
  "AsInfo_id r = (r, None)"

definition zero_trow :: trow where
  "zero_trow = \<lparr>RowID = 0, cols = [], DeletionTimestamp = PNull\<rparr>"

definition mcd1_row :: trow where
  "mcd1_row =
     \<lparr>RowID = 1,
      cols = [PInt 1700000000123, PInt 1700000002000, PText ''mcd-a'', PText ''shoot'',
              PInt 2, PText ''pool-a'', PText ''z1'', PText ''1'', PText ''0'', PText ''mc-a'',
              PText ''5d41''],
      DeletionTimestamp = PNull\<rparr>"

definition db_mcd1 :: DB where
  "db_mcd1 = db_empty\<lparr>tables := (tables db_empty)(mcd_info := [mcd1_row])\<rparr>"

definition db_pod1 :: DB where
  "db_pod1 = db_empty\<lparr>tables := (tables db_empty)(pod_info := [pod1_row])\<rparr>"

text \<open>A statement that answers with the parameters it was bound to, as its one row.\<close>

definition echo_stmt :: "param list Stmt" where
  "echo_stmt params = Inr (Rows None [params])"

section \<open>Auxiliary facts\<close>

lemma Exec_insert_eq:
  "Exec_insert drv tb args db =
     (case exec_err drv of
        Some e \<Rightarrow> (Inl e, db)
      | None \<Rightarrow>
          (Inr \<lparr>LastInsertId = (next_RowID (tables db tb), None), RowsAffected = (1, None)\<rparr>,
           db\<lparr>tables := (tables db)(tb := tables db tb @
              [\<lparr>RowID = next_RowID (tables db tb), cols = args, DeletionTimestamp = PNull\<rparr>])\<rparr>))"
  by (simp add: Exec_insert_def Let_def split: option.splits)

lemma next_RowID_positive: "0 < next_RowID t"
  by (simp add: next_RowID_def)

text \<open>
  A text made of white space only is trimmed to the empty text: each encoding in
  \<open>white_space\<close> is found at the front of a text that starts with it, and no other is.
\<close>

lemma trim_runes_Nil: "trim_runes runes [] = []"
proof -
  have "List.find (starts_with []) runes = None"
    by (simp add: find_None_iff starts_with_def)
  then show ?thesis by (simp add: trim_runes.simps)
qed

lemma find_white_space:
  assumes "r \<in> set white_space"
  shows "List.find (starts_with (r @ s)) white_space = Some r"
proof -
  define P where "P = (\<lambda>r. List.find (starts_with (r @ s)) white_space = Some r)"
  have "list_all P white_space"
    unfolding white_space_def list.pred_inject
    unfolding P_def
    by (simp add: white_space_def starts_with_def)
  then have "P r" using assms by (simp add: list_all_iff)
  then show ?thesis by (simp add: P_def)
qed

lemma trim_runes_white_space:
  "set ws \<subseteq> set white_space \<Longrightarrow> trim_runes white_space (concat ws @ s) = trim_runes white_space s"
proof (induction ws)
  case Nil
  then show ?case by simp
next
  case (Cons r ws)
  then have r: "r \<in> set white_space" and ws: "set ws \<subseteq> set white_space" by simp_all
  have "trim_runes white_space (r @ concat ws @ s) = trim_runes white_space (concat ws @ s)"
    using find_white_space [OF r, of "concat ws @ s"]
    by (subst trim_runes.simps) simp
  then show ?case using Cons.IH [OF ws] by simp
qed

lemma TrimSpace_blank:
  "set ws \<subseteq> set white_space \<Longrightarrow> TrimSpace (concat ws) = []"
  using trim_runes_white_space [of ws "[]"]
  by (simp add: TrimSpace_def trim_runes_Nil)

text \<open>The three stores without an encoding step: what they return and what they leave.\<close>

lemma StoreMachineDeploymentInfo_eq:
  "StoreMachineDeploymentInfo GetHash String drv m db =
     (case exec_err drv of
        Some e \<Rightarrow> ((0, Some e), db)
      | None \<Rightarrow>
          ((next_RowID (tables db mcd_info), None),
           db\<lparr>tables := (tables db)(mcd_info := tables db mcd_info @
              [\<lparr>RowID = next_RowID (tables db mcd_info),
                cols = [PInt (UnixMilli (UTC (CreationTimestamp m))),
                        PInt (UnixMilli (UTC (SnapshotTimestamp m))),
                        PText (Name m),
                        PText (Namespace m),
                        PInt (Replicas m),
                        PText (PoolName m),
                        PText (Zone m),
                        PText (String (MaxSurge m)),
                        PText (String (MaxUnavailable m)),
                        PText (MachineClassName m),
                        PText (if Hash m = '''' then GetHash m else Hash m)],
                DeletionTimestamp = PNull\<rparr>])\<rparr>))"
  by (simp add: StoreMachineDeploymentInfo_def Exec_insert_eq Let_def split: option.splits)

lemma StoreWorkerPoolInfo_eq:
  "StoreWorkerPoolInfo GetHash String drv w db =
     (case exec_err drv of
        Some e \<Rightarrow> ((0, Some e), db)
      | None \<Rightarrow>
          ((next_RowID (tables db worker_pool_info), None),
           db\<lparr>tables := (tables db)(worker_pool_info := tables db worker_pool_info @
              [\<lparr>RowID = next_RowID (tables db worker_pool_info),
                cols = [PInt (UnixMilli (UTC (CreationTimestamp w))),
                        PInt (UnixMilli (UTC (SnapshotTimestamp w))),
                        PText (Name w),
                        PText (Namespace w),
                        PText (MachineType w),
                        PText (Architecture w),
                        PInt (Minimum w),
                        PInt (Maximum w),
                        PText (String (MaxSurge w)),
                        PText (String (MaxUnavailable w)),
                        PText (Join (Zones w) '' ''),
                        PText (if Hash w = '''' then GetHash w else Hash w)],
                DeletionTimestamp = PNull\<rparr>])\<rparr>))"
  by (simp add: StoreWorkerPoolInfo_def Exec_insert_eq Let_def split: option.splits)

lemma StoreCADeployment_eq:
  "StoreCADeployment drv c db =
     (case exec_err drv of
        Some e \<Rightarrow> ((- 1, Some e), db)
      | None \<Rightarrow>
          ((next_RowID (tables db ca_settings_info), None),
           db\<lparr>tables := (tables db)(ca_settings_info := tables db ca_settings_info @
              [\<lparr>RowID = next_RowID (tables db ca_settings_info),
                cols = [PText (Expander c), PInt (MaxNodesTotal c), PText (Priorities c),
                        PText (Hash c)],
                DeletionTimestamp = PNull\<rparr>])\<rparr>))"
  by (simp add: StoreCADeployment_def Exec_insert_eq split: option.splits)

text \<open>The stores with encoding steps, with the steps laid out one after the other.\<close>

lemma StorePodInfo_eq:
  "StorePodInfo GetHash MarL MarR MarS drv p h db =
     (case snd (labelsToText MarL (labels_of h (Labels p))) of
        Some e \<Rightarrow> ((- 1, Some e), db)
      | None \<Rightarrow>
     (case snd (resourcesToText MarR (Requests p)) of
        Some e \<Rightarrow> ((- 1, Some e), db)
      | None \<Rightarrow>
     (case snd (specToJson MarS (Spec p)) of
        Some e \<Rightarrow> ((- 1, Some e), db)
      | None \<Rightarrow>
     (case exec_err drv of
        Some e \<Rightarrow> ((- 1, Some (Wrapped ''could not persist podinfo'' e)), db)
      | None \<Rightarrow>
          ((next_RowID (tables db pod_info), None),
           db\<lparr>tables := (tables db)(pod_info := tables db pod_info @
              [\<lparr>RowID = next_RowID (tables db pod_info),
                cols = [PInt (UnixMilli (UTC (CreationTimestamp p))),
                        PInt (UnixMilli (UTC (SnapshotTimestamp p))),
                        PText (Name p),
                        PText (Namespace p),
                        PText (UID p),
                        PText (NodeName p),
                        PText (NominatedNodeName p),
                        PText (fst (labelsToText MarL (labels_of h (Labels p)))),
                        PText (fst (resourcesToText MarR (Requests p))),
                        PText (fst (specToJson MarS (Spec p))),
                        PInt (PodScheduleStatus p),
                        PText (if Hash p = [] then GetHash h p else Hash p)],
                DeletionTimestamp = PNull\<rparr>])\<rparr>)))))"
proof -
  obtain lt le where L: "labelsToText MarL (labels_of h (Labels p)) = (lt, le)"
    by (cases "labelsToText MarL (labels_of h (Labels p))")
  obtain rt re where R: "resourcesToText MarR (Requests p) = (rt, re)"
    by (cases "resourcesToText MarR (Requests p)")
  obtain st se where S: "specToJson MarS (Spec p) = (st, se)"
    by (cases "specToJson MarS (Spec p)")
  show ?thesis
    by (cases le; cases re; cases se; cases "exec_err drv")
       (simp_all add: StorePodInfo_def Let_def L R S Exec_insert_eq)
qed

lemma StoreNodeInfo_eq:
  "StoreNodeInfo GetHash MarL MarT MarR drv n h db =
     (case snd (labelsToText MarL (labels_of (delete h (Labels n) last_applied_label) (Labels n))) of
        Some e \<Rightarrow> ((0, Some e), delete h (Labels n) last_applied_label, db)
      | None \<Rightarrow>
     (case snd (taintsToText MarT (Taints n)) of
        Some e \<Rightarrow> ((0, Some e), delete h (Labels n) last_applied_label, db)
      | None \<Rightarrow>
     (case snd (resourcesToText MarR (Allocatable n)) of
        Some e \<Rightarrow> ((0, Some e), delete h (Labels n) last_applied_label, db)
      | None \<Rightarrow>
     (case snd (resourcesToText MarR (Capacity n)) of
        Some e \<Rightarrow> ((0, Some e), delete h (Labels n) last_applied_label, db)
      | None \<Rightarrow>
     (case exec_err drv of
        Some e \<Rightarrow> ((0, Some e), delete h (Labels n) last_applied_label, db)
      | None \<Rightarrow>
          ((0, None), delete h (Labels n) last_applied_label,
           db\<lparr>tables := (tables db)(node_info := tables db node_info @
              [\<lparr>RowID = next_RowID (tables db node_info),
                cols = [PInt (UnixMilli (UTC (CreationTimestamp n))),
                        PInt (UnixMilli (UTC (SnapshotTimestamp n))),
                        PText (Name n),
                        PText (Namespace n),
                        PText (ProviderID n),
                        PInt (AllocatableVolumes n),
                        PText (fst (labelsToText MarL (labels_of
                          (delete h (Labels n) last_applied_label) (Labels n)))),
                        PText (fst (taintsToText MarT (Taints n))),
                        PText (fst (resourcesToText MarR (Allocatable n))),
                        PText (fst (resourcesToText MarR (Capacity n))),
                        PText (if Hash n = [] then GetHash h n else Hash n)],
                DeletionTimestamp = PNull\<rparr>])\<rparr>))))))"
proof -
  obtain lt le where L: "labelsToText MarL (labels_of (delete h (Labels n) last_applied_label)
      (Labels n)) = (lt, le)"
    by (cases "labelsToText MarL (labels_of (delete h (Labels n) last_applied_label) (Labels n))")
  obtain tt te where T: "taintsToText MarT (Taints n) = (tt, te)"
    by (cases "taintsToText MarT (Taints n)")
  obtain at ae where A: "resourcesToText MarR (Allocatable n) = (at, ae)"
    by (cases "resourcesToText MarR (Allocatable n)")
  obtain ct ce where C: "resourcesToText MarR (Capacity n) = (ct, ce)"
    by (cases "resourcesToText MarR (Capacity n)")
  show ?thesis
    by (cases le; cases te; cases ae; cases ce; cases "exec_err drv")
       (simp_all add: StoreNodeInfo_def Let_def L T A C Exec_insert_eq)
qed

section \<open>The lifecycle of the facade\<close>

text \<open>
  Claim C7. \<open>Close\<close> is idempotent and safe to call repeatedly: after a \<open>Close\<close> that
  returned nil the handle is nil and, where there was a handle, the connection is
  released; every later \<open>Close\<close>, whatever the driver would answer and whatever the
  state of the database, returns nil and changes nothing; and \<open>Close\<close> on a facade that
  was never initialised returns nil.
\<close>

theorem Close_idempotent:
  "Close drv d db = (None, d', db') \<Longrightarrow>
     dataDB d' = None
   \<and> (dataDB d \<noteq> None \<longrightarrow> \<not> conn_open db')
   \<and> Close drv2 d' dbx = (None, d', dbx)
   \<and> Close drv2 (NewDataAccess path) dbx = (None, NewDataAccess path, dbx)"
  by (auto simp: Close_def sql_DB_Close_def NewDataAccess_def split: if_splits option.splits)

theorem Close_idempotent_witness:
  "Close ok_driver opened db_empty = (None, opened\<lparr>dataDB := None\<rparr>, db_empty\<lparr>conn_open := False\<rparr>)
   \<and> \<not> conn_open (db_empty\<lparr>conn_open := False\<rparr>)
   \<and> Close locked_driver (opened\<lparr>dataDB := None\<rparr>) (db_empty\<lparr>conn_open := False\<rparr>)
       = (None, opened\<lparr>dataDB := None\<rparr>, db_empty\<lparr>conn_open := False\<rparr>)
   \<and> Close locked_driver (NewDataAccess ''data.db'') db_empty = (None, NewDataAccess ''data.db'', db_empty)"
proof -
  have h: "Close ok_driver opened db_empty = (None, opened\<lparr>dataDB := None\<rparr>, db_empty\<lparr>conn_open := False\<rparr>)"
    by (simp add: Close_def sql_DB_Close_def ok_driver_def opened_def)
  have o: "dataDB opened \<noteq> None"
    by (simp add: opened_def)
  show ?thesis
    using h o
      Close_idempotent [OF h, of locked_driver "db_empty\<lparr>conn_open := False\<rparr>" "''data.db''"]
      Close_idempotent [OF h, of locked_driver db_empty "''data.db''"]
    by simp
qed

section \<open>The count of the rows with a key and a hash\<close>




section \<open>The lookup of the autoscaler settings\<close>

text \<open>Both lookups return a nil pointer and a nil error when their statement yields no row.\<close>

lemma CADeployment_no_row:
  "stmt [] = Inr (Rows None []) \<Longrightarrow> GetLatestCADeployment stmt = (None, None)"
  "stmt [PText hash] = Inr (Rows None []) \<Longrightarrow> GetCADeploymentWithHash stmt hash = (None, None)"
  by (simp_all add: GetLatestCADeployment_def GetCADeploymentWithHash_def)

text \<open>The sample settings, stored in the empty database.\<close>

lemma StoreCADeployment_ca1:
  "StoreCADeployment ok_driver ca1 db_empty = ((1, None), db_ca1)"
  by (simp add: StoreCADeployment_eq ok_driver_def ca1_def db_ca1_def ca1_row_def db_empty_def
        next_RowID_def)

text \<open>
  Claim C10, on the code. The database holds the sample settings, whose hash is
  \<open>c0de\<close>, and no settings with the hash \<open>beef\<close>. \<open>GetCADeploymentWithHash\<close> for the
  hash \<open>beef\<close> runs the statement \<open>selectLatestCADeployment\<close> and returns a pointer to
  the sample settings, not the nil pointer. On the empty database
  \<open>GetLatestCADeployment\<close> returns a nil pointer and a nil error.
\<close>

theorem GetCADeploymentWithHash_other_hash:
  "GetCADeploymentWithHash (selectLatestCADeployment ok_driver db_ca1) ''beef'' = (Some ca1, None)
   \<and> Hash ca1 = ''c0de''
   \<and> filter (key_matches 3 (PText ''beef'')) (tables db_ca1 ca_settings_info) = []
   \<and> GetLatestCADeployment (selectLatestCADeployment ok_driver db_empty) = (None, None)"
  by (simp add: GetCADeploymentWithHash_def GetLatestCADeployment_def selectLatestCADeployment_def
        ca_of_row_def text_of_def int_of_def key_matches_def ok_driver_def db_ca1_def
        ca1_row_def ca1_def db_empty_def)

section \<open>The query primitives on no row\<close>

lemma StoreMachineDeploymentInfo_other_name:
  "Name m \<noteq> name \<Longrightarrow>
   \<forall>r \<in> set (tables db mcd_info). \<not> key_matches 2 (PText name) r \<Longrightarrow>
   \<forall>r \<in> set (tables (snd (StoreMachineDeploymentInfo GetHash String drv m db)) mcd_info).
      \<not> key_matches 2 (PText name) r"
  by (simp add: StoreMachineDeploymentInfo_eq key_matches_def split: option.splits)

text \<open>
  Claim C5. A query that yields no row is reported as the error \<open>sql.ErrNoRows\<close>, never
  as a success: \<open>queryAndMapToInfos\<close> returns \<open>sql.ErrNoRows\<close> with a nil slice,
  \<open>queryAndMapToInfo\<close> returns the zero value with an error that wraps \<open>sql.ErrNoRows\<close>,
  and \<open>LoadLatestMachineDeploymentInfo\<close>, for a name that no row of \<open>mcd_info\<close> has,
  returns that error.
\<close>

theorem zero_rows_NotFound:
  "(stmt (map adjustParam params) = Inr (Rows None []) \<longrightarrow>
      queryAndMapToInfos AsInfo stmt params = (None, Some ErrNoRows))
   \<and> (stmt params = Inr (Rows None []) \<longrightarrow>
      queryAndMapToInfo zero AsInfo stmt params =
        (zero, Some (Wrapped ''could not find rows for statement'' ErrNoRows)))
   \<and> (query_err drv = None \<and> scan_err drv = None
        \<and> (\<forall>r \<in> set (tables db mcd_info). \<not> key_matches 2 (PText name) r) \<longrightarrow>
      LoadLatestMachineDeploymentInfo zero' AsInfo' (selectLatestMCDInfo drv db) name =
        (zero', Some (Wrapped ''could not find rows for statement'' ErrNoRows)))
   \<and> errors_Is (Wrapped ''could not find rows for statement'' ErrNoRows) ErrNoRows"
proof -
  have f: "(\<forall>r \<in> set (tables db mcd_info). \<not> key_matches 2 (PText name) r) \<Longrightarrow>
           filter (key_matches 2 (PText name)) (tables db mcd_info) = []"
    by (simp add: filter_empty_conv)
  show ?thesis
    using f
    by (auto simp: queryAndMapToInfos_def queryAndMapToInfo_def
          LoadLatestMachineDeploymentInfo_def selectLatestMCDInfo_def)
qed

theorem zero_rows_NotFound_witness:
  "queryAndMapToInfos AsInfo_id (no_rows_stmt :: trow Stmt) [PTime T0] = (None, Some ErrNoRows)
   \<and> queryAndMapToInfo zero_trow AsInfo_id no_rows_stmt [PText ''mcd-b''] =
        (zero_trow, Some (Wrapped ''could not find rows for statement'' ErrNoRows))
   \<and> LoadLatestMachineDeploymentInfo zero_trow AsInfo_id (selectLatestMCDInfo ok_driver db_mcd1) ''mcd-b'' =
        (zero_trow, Some (Wrapped ''could not find rows for statement'' ErrNoRows))"
proof -
  have a: "(no_rows_stmt :: trow Stmt) (map adjustParam [PTime T0]) = Inr (Rows None [])"
    by (simp add: no_rows_stmt_def)
  have b: "(no_rows_stmt :: trow Stmt) [PText ''mcd-b''] = Inr (Rows None [])"
    by (simp add: no_rows_stmt_def)
  have c: "query_err ok_driver = None \<and> scan_err ok_driver = None
           \<and> (\<forall>r \<in> set (tables db_mcd1 mcd_info). \<not> key_matches 2 (PText ''mcd-b'') r)"
    by (simp add: ok_driver_def db_mcd1_def db_empty_def mcd1_row_def key_matches_def)
  show ?thesis
    using a b c
      zero_rows_NotFound [where stmt = "no_rows_stmt :: trow Stmt" and params = "[PTime T0]"
        and AsInfo = AsInfo_id and zero = zero_trow and drv = ok_driver and db = db_mcd1
        and name = "''mcd-b''" and zero' = zero_trow and AsInfo' = AsInfo_id]
      zero_rows_NotFound [where stmt = "no_rows_stmt :: trow Stmt" and params = "[PText ''mcd-b'']"
        and AsInfo = AsInfo_id and zero = zero_trow and drv = ok_driver and db = db_mcd1
        and name = "''mcd-b''" and zero' = zero_trow and AsInfo' = AsInfo_id]
    by simp
qed

section \<open>The codec layer on empty values and blank texts\<close>

text \<open>An empty or nil value is encoded as the empty text, and the library is not called.\<close>

lemma ToText_empty:
  "len_map_0 labels \<Longrightarrow> labelsToText MarshalL labels = ('''', None)"
  "len_map_0 resources \<Longrightarrow> resourcesToText MarshalR resources = ('''', None)"
  "len_slice_0 taints \<Longrightarrow> taintsToText MarshalT taints = ('''', None)"
  "len_slice_0 tolerations \<Longrightarrow> tolerationsToText MarshalO tolerations = ('''', None)"
  "len_slice_0 tsc \<Longrightarrow> tscToText MarshalC tsc = ('''', None)"
  by (simp_all add: labelsToText_def resourcesToText_def taintsToText_def tolerationsToText_def
        tscToText_def)

text \<open>
  A text of white space only, the empty text among them, is decoded as the nil value
  without an error, and the library is not called.
\<close>

lemma FromText_blank:
  assumes "set ws \<subseteq> set white_space"
  shows "labelsFromText UnmarshalL (concat ws) = (None, None)"
    and "resourcesFromText UnmarshalR (concat ws) = (None, None)"
    and "taintsFromText UnmarshalT (concat ws) = (None, None)"
    and "tolerationsFromText UnmarshalO (concat ws) = (None, None)"
    and "tscFromText UnmarshalC (concat ws) = (None, None)"
  using TrimSpace_blank [OF assms]
  by (simp_all add: labelsFromText_def resourcesFromText_def taintsFromText_def
        tolerationsFromText_def tscFromText_def)

text \<open>
  On a value that is not empty the wrappers hand the value to \<open>json.Marshal\<close> and the
  text to \<open>json.Unmarshal\<close>: what comes back is what the library reads from the text it
  wrote.
\<close>

lemma labels_through_library:
  "\<not> len_map_0 labels \<Longrightarrow> MarshalL labels = (textL, None) \<Longrightarrow> TrimSpace textL \<noteq> [] \<Longrightarrow>
   UnmarshalL textL = (back, None) \<Longrightarrow>
   labelsFromText UnmarshalL (fst (labelsToText MarshalL labels)) = (back, None)"
  by (simp add: labelsToText_def labelsFromText_def)

section \<open>Storing a node\<close>

text \<open>The sample node, stored in the empty database by a driver that reports no error.\<close>

lemma StoreNodeInfo_node1:
  "StoreNodeInfo labels_GetHash sample_Marshal sample_Marshal sample_Marshal ok_driver
     node1 heap1 db_empty
   = ((0, None), heap1(0 := [''a'' \<mapsto> ''b'']), db_node1)"
  by (simp add: StoreNodeInfo_eq node1_def heap1_def db_empty_def db_node1_def node1_row_def
        ok_driver_def T0_def labels_GetHash_def sample_Marshal_def labelsToText_def
        taintsToText_def resourcesToText_def len_map_0_def len_slice_0_def labels_of_def
        delete_def next_RowID_def UTC_def UnixMilli_def last_applied_label_def)

text \<open>The three other stores return the RowID of the row they insert, which is positive.\<close>

lemma Store_returns_RowID:
  "exec_err drv = None \<Longrightarrow>
     StoreMachineDeploymentInfo GetHashM String drv m db = ((rowID, err), db') \<Longrightarrow>
     err = None \<and> 0 < rowID \<and> RowID (last (tables db' mcd_info)) = rowID
     \<and> length (tables db' mcd_info) = length (tables db mcd_info) + 1"
  "exec_err drv = None \<Longrightarrow>
     StoreWorkerPoolInfo GetHashW String drv w db = ((rowID, err), db') \<Longrightarrow>
     err = None \<and> 0 < rowID \<and> RowID (last (tables db' worker_pool_info)) = rowID
     \<and> length (tables db' worker_pool_info) = length (tables db worker_pool_info) + 1"
  "StorePodInfo GetHashP MarL MarR MarS drv p h db = ((rowID, None), db') \<Longrightarrow>
     0 < rowID \<and> RowID (last (tables db' pod_info)) = rowID
     \<and> length (tables db' pod_info) = length (tables db pod_info) + 1"
  by (auto simp: StoreMachineDeploymentInfo_eq StoreWorkerPoolInfo_eq StorePodInfo_eq
        next_RowID_positive split: option.splits)

text \<open>
  Claim C1, on the code. \<open>StoreNodeInfo\<close> stores the sample node: the call succeeds and
  the table \<open>node_info\<close> gains a row with the generated RowID 1, yet the row identifier
  returned is 0, the zero value of the named result.
\<close>

theorem StoreNodeInfo_rowID:
  "fst (StoreNodeInfo labels_GetHash sample_Marshal sample_Marshal sample_Marshal ok_driver
          node1 heap1 db_empty) = (0, None)
   \<and> tables db_empty node_info = []
   \<and> map RowID (tables (snd (snd (StoreNodeInfo labels_GetHash sample_Marshal sample_Marshal
          sample_Marshal ok_driver node1 heap1 db_empty))) node_info) = [1]"
  unfolding StoreNodeInfo_node1 by (simp add: db_node1_def db_empty_def node1_row_def)

text \<open>
  Claim C9. \<open>StoreNodeInfo\<close> deletes the label \<open>last_applied_label\<close> from the label map
  of the node it is given, in the heap, so that the caller sees the deletion, and leaves
  every other label map as it was; the hash is computed before, on the heap of the caller;
  the labels persisted by a call that succeeds are the encoding of the map without the
  label, and the hash persisted is the hash of the node with its original labels, or the
  hash that the node already had.
\<close>

theorem StoreNodeInfo_removes_label:
  "StoreNodeInfo GetHash MarL MarT MarR drv n h db = (res, h', db') \<Longrightarrow>
     h' = delete h (Labels n) last_applied_label
   \<and> (\<forall>a. Labels n = Some a \<longrightarrow> h' a = (h a)(last_applied_label := None))
   \<and> (\<forall>a. Labels n \<noteq> Some a \<longrightarrow> h' a = h a)
   \<and> (\<forall>m. labels_of h' (Labels n) = Some m \<longrightarrow> m last_applied_label = None)
   \<and> (snd res = None \<longrightarrow>
        (\<exists>r. tables db' node_info = tables db node_info @ [r]
           \<and> cols r ! 6 = PText (fst (labelsToText MarL (labels_of h' (Labels n))))
           \<and> cols r ! 10 = PText (if Hash n = [] then GetHash h n else Hash n)))"
proof -
  assume a: "StoreNodeInfo GetHash MarL MarT MarR drv n h db = (res, h', db')"
  have H: "h' = delete h (Labels n) last_applied_label"
    using a by (simp add: StoreNodeInfo_eq split: option.splits)
  have D: "(\<forall>a. Labels n = Some a \<longrightarrow> h' a = (h a)(last_applied_label := None))
           \<and> (\<forall>a. Labels n \<noteq> Some a \<longrightarrow> h' a = h a)
           \<and> (\<forall>m. labels_of h' (Labels n) = Some m \<longrightarrow> m last_applied_label = None)"
    unfolding H by (cases "Labels n") (auto simp: delete_def labels_of_def)
  have S: "snd res = None \<longrightarrow>
        (\<exists>r. tables db' node_info = tables db node_info @ [r]
           \<and> cols r ! 6 = PText (fst (labelsToText MarL (labels_of h' (Labels n))))
           \<and> cols r ! 10 = PText (if Hash n = [] then GetHash h n else Hash n))"
    using a unfolding H by (auto simp: StoreNodeInfo_eq split: option.splits)
  show ?thesis using H D S by blast
qed

theorem StoreNodeInfo_removes_label_witness:
  "StoreNodeInfo labels_GetHash sample_Marshal sample_Marshal sample_Marshal ok_driver
     node1 heap1 db_empty = ((0, None), heap1(0 := [''a'' \<mapsto> ''b'']), db_node1)
   \<and> heap1 0 last_applied_label = Some ''x''
   \<and> (heap1(0 := [''a'' \<mapsto> ''b''])) 0 last_applied_label = None
   \<and> (\<exists>r. tables db_node1 node_info = tables db_empty node_info @ [r]
         \<and> cols r ! 6 = PText ''{a:b}'' \<and> cols r ! 10 = PText ''n1bx'')
   \<and> labels_GetHash heap1 node1 = ''n1bx''
   \<and> labels_GetHash (heap1(0 := [''a'' \<mapsto> ''b''])) node1 = ''n1b''"
proof -
  have e: "StoreNodeInfo labels_GetHash sample_Marshal sample_Marshal sample_Marshal ok_driver
     node1 heap1 db_empty = ((0, None), heap1(0 := [''a'' \<mapsto> ''b'']), db_node1)"
    by (rule StoreNodeInfo_node1)
  have g: "labels_GetHash heap1 node1 = ''n1bx''"
          "labels_GetHash (heap1(0 := [''a'' \<mapsto> ''b''])) node1 = ''n1b''"
          "heap1 0 last_applied_label = Some ''x''"
          "Hash node1 = []"
          "labelsToText sample_Marshal (labels_of (heap1(0 := [''a'' \<mapsto> ''b''])) (Labels node1))
             = (''{a:b}'', None)"
    by (simp_all add: labels_GetHash_def heap1_def node1_def labels_of_def last_applied_label_def
          labelsToText_def len_map_0_def sample_Marshal_def)
  have "snd (0::int, None::error option) = None \<longrightarrow>
        (\<exists>r. tables db_node1 node_info = tables db_empty node_info @ [r]
           \<and> cols r ! 6 = PText (fst (labelsToText sample_Marshal
                 (labels_of (heap1(0 := [''a'' \<mapsto> ''b''])) (Labels node1))))
           \<and> cols r ! 10 = PText (if Hash node1 = [] then labels_GetHash heap1 node1
                                    else Hash node1))"
    using StoreNodeInfo_removes_label [OF e] by blast
  then have x: "\<exists>r. tables db_node1 node_info = tables db_empty node_info @ [r]
         \<and> cols r ! 6 = PText ''{a:b}'' \<and> cols r ! 10 = PText ''n1bx''"
    by (simp add: g)
  have y: "(heap1(0 := [''a'' \<mapsto> ''b''])) 0 last_applied_label = None"
    by (simp add: last_applied_label_def)
  show ?thesis
    using e g(1) g(2) g(3) x y by blast
qed

section \<open>The timestamps bound to the statements\<close>

text \<open>
  The query primitive for many rows adjusts its parameters; the one for a single row
  binds them as they are given.
\<close>

lemma query_primitives_bind:
  "queryAndMapToInfos AsInfo_id echo_stmt [PTime T2] = (Some [[PInt 1700000002000]], None)"
  "queryAndMapToInfo [] AsInfo_id echo_stmt [PTime T2] = ([PTime T2], None)"
  by (simp_all add: queryAndMapToInfos_def queryAndMapToInfo_def echo_stmt_def AsInfo_id_def
        T2_def UTC_def UnixMilli_def)

text \<open>
  Claim C2, on the code. The deletion timestamp of the sample node is bound as the time
  value itself, and the row holds that value, not the milliseconds since the epoch in UTC;
  \<open>UpdateMCDInfoDeletionTimestamp\<close> does the same on the sample machine deployment. The
  sibling \<open>UpdatePodDeletionTimestamp\<close> binds the milliseconds.
\<close>

theorem UpdateNodeInfoDeletionTimestamp_binds_time:
  "UpdateNodeInfoDeletionTimestamp ok_driver ''n1'' T2 db_node1 =
     ((1, None),
      db_empty\<lparr>tables := (tables db_empty)(node_info :=
         [node1_row\<lparr>DeletionTimestamp := PTime T2\<rparr>])\<rparr>)
   \<and> UpdateMCDInfoDeletionTimestamp ok_driver ''mcd-a'' T2 db_mcd1 =
     ((1, None),
      db_empty\<lparr>tables := (tables db_empty)(mcd_info :=
         [mcd1_row\<lparr>DeletionTimestamp := PTime T2\<rparr>])\<rparr>)
   \<and> UpdatePodDeletionTimestamp ok_driver ''uid-1'' T2 db_pod1 =
     ((1, None),
      db_empty\<lparr>tables := (tables db_empty)(pod_info :=
         [pod1_row\<lparr>DeletionTimestamp := PInt 1700000002000\<rparr>])\<rparr>)
   \<and> PInt (UnixMilli (UTC T2)) = PInt 1700000002000
   \<and> PTime T2 \<noteq> PInt (UnixMilli (UTC T2))"
  by (simp add: UpdateNodeInfoDeletionTimestamp_def UpdateMCDInfoDeletionTimestamp_def
        UpdatePodDeletionTimestamp_def Exec_update_deletion_def key_matches_def
        db_node1_def db_mcd1_def db_pod1_def db_empty_def node1_row_def mcd1_row_def
        pod1_row_def ok_driver_def T2_def UTC_def UnixMilli_def Let_def)

section \<open>The hash that a store persists\<close>

text \<open>\<open>StoreCADeployment\<close> binds the hash of the settings as it is given.\<close>

lemma StoreCADeployment_binds_Hash:
  "snd (fst (StoreCADeployment drv c db)) = None \<Longrightarrow>
   \<exists>r. tables (snd (StoreCADeployment drv c db)) ca_settings_info
          = tables db ca_settings_info @ [r]
      \<and> cols r ! 3 = PText (Hash c)"
  by (simp add: StoreCADeployment_eq split: option.splits)



section \<open>A store that fails\<close>




end
